theory Spec2Isabelle
  imports Complex_Main
begin

section \<open>JavaScript strings and numbers\<close>

text \<open>
  A JavaScript string is a sequence of UTF-16 code units. A code unit is modelled by its
  number (a \<open>nat\<close>, below 65536 in a well-formed string), so that the text produced by
  \<open>decodeUTF8\<close>, which can lie outside Latin-1, is representable. String literals of the
  source are written \<open>js ''...''\<close>.
\<close>

type_synonym jsstring = "nat list"

definition js :: "string \<Rightarrow> jsstring" where
  "js s = map of_char s"

abbreviation (input) LF :: nat where "LF \<equiv> 10"
abbreviation (input) CR :: nat where "CR \<equiv> 13"
abbreviation (input) SPACE :: nat where "SPACE \<equiv> 32"
abbreviation (input) PERCENT :: nat where "PERCENT \<equiv> 37"
abbreviation (input) COLON :: nat where "COLON \<equiv> 58"
abbreviation (input) NUL :: nat where "NUL \<equiv> 0"

text \<open>
  A JavaScript number: a double is NaN, an infinity, or a finite (dyadic) rational. The sign
  of zero is not modelled.
\<close>

datatype number = NaN | PosInfinity | NegInfinity | Finite rat

text \<open>\<open>Number.isInteger\<close>: a finite number with no fractional part.\<close>

fun Number_isInteger :: "number \<Rightarrow> bool" where
  "Number_isInteger (Finite q) = (of_int \<lfloor>q\<rfloor> = q)"
| "Number_isInteger _ = False"

text \<open>
  \<open>str.indexOf(c)\<close> for a one-unit search string: the index of the first occurrence, or
  \<open>-1\<close>.
\<close>

fun indexOf :: "jsstring \<Rightarrow> nat \<Rightarrow> int" where
  "indexOf [] c = -1"
| "indexOf (x # xs) c =
     (if x = c then 0
      else (let i = indexOf xs c in if i = -1 then -1 else i + 1))"

text \<open>\<open>str.substring(a, b)\<close> and \<open>str.substring(a)\<close> for \<open>0 \<le> a \<le> b\<close>.\<close>

definition substring :: "jsstring \<Rightarrow> nat \<Rightarrow> nat \<Rightarrow> jsstring" where
  "substring s a b = take (b - a) (drop a s)"

definition substringFrom :: "jsstring \<Rightarrow> nat \<Rightarrow> jsstring" where
  "substringFrom s a = drop a s"

text \<open>\<open>str.split('\n')\<close>: the pieces between separators; the empty string gives one
  empty piece, and a string ending in the separator gives a last, empty piece.\<close>

fun split_str :: "jsstring \<Rightarrow> nat \<Rightarrow> jsstring list" where
  "split_str [] sep = [[]]"
| "split_str (c # cs) sep =
     (if c = sep then [] # split_str cs sep
      else (case split_str cs sep of
              [] \<Rightarrow> [[c]]
            | l # ls \<Rightarrow> (c # l) # ls))"

text \<open>\<open>str.toLowerCase()\<close> on the ASCII letters; other code units are kept (a code unit
  outside ASCII never becomes an ASCII letter of \<open>text/event-stream\<close>).\<close>

definition toLowerCase :: "jsstring \<Rightarrow> jsstring" where
  "toLowerCase s = map (\<lambda>c. if 65 \<le> c \<and> c \<le> 90 then c + 32 else c) s"

subsection \<open>The built-ins \<open>escape\<close> and \<open>decodeURIComponent\<close>\<close>

text \<open>
  \<open>escape\<close> (ECMA-262, B.2.1.1) keeps the letters, the digits and \<open>@*_+-./\<close>, writes any
  other code unit below 256 as \<open>%XX\<close> and a code unit from 256 as \<open>%uXXXX\<close>.
\<close>

definition unescaped :: "nat \<Rightarrow> bool" where
  "unescaped c \<longleftrightarrow>
     (65 \<le> c \<and> c \<le> 90) \<or> (97 \<le> c \<and> c \<le> 122) \<or> (48 \<le> c \<and> c \<le> 57)
     \<or> c = 64 \<or> c = 42 \<or> c = 95 \<or> c = 43 \<or> c = 45 \<or> c = 46 \<or> c = 47"

definition hexDigit :: "nat \<Rightarrow> nat" where
  "hexDigit d = (if d < 10 then 48 + d else 55 + d)"

definition escapeUnit :: "nat \<Rightarrow> jsstring" where
  "escapeUnit c =
     (if unescaped c then [c]
      else if c < 256 then [PERCENT, hexDigit (c div 16), hexDigit (c mod 16)]
      else [PERCENT, 117, hexDigit (c div 4096 mod 16), hexDigit (c div 256 mod 16),
            hexDigit (c div 16 mod 16), hexDigit (c mod 16)])"

definition escape :: "jsstring \<Rightarrow> jsstring" where
  "escape s = concat (map escapeUnit s)"

text \<open>
  \<open>decodeURIComponent\<close> (ECMA-262, Decode with an empty reserved set) reads the string
  left to right: a code unit other than \<open>%\<close> is copied; \<open>%XX\<close> is an octet; an octet
  below 128 is that character, any other octet starts a UTF-8 sequence whose
  continuation octets must follow as \<open>%XX\<close> each, and the sequence must be the UTF-8
  encoding of a code point, which is appended in UTF-16. Everything else throws URIError
  (\<open>None\<close>). The model first reads the escapes, then decodes the octets.
\<close>

definition hexVal :: "nat \<Rightarrow> nat option" where
  "hexVal c =
     (if 48 \<le> c \<and> c \<le> 57 then Some (c - 48)
      else if 65 \<le> c \<and> c \<le> 70 then Some (c - 55)
      else if 97 \<le> c \<and> c \<le> 102 then Some (c - 87)
      else None)"

datatype token = Literal nat | Octet nat

fun readEscapes :: "jsstring \<Rightarrow> token list option" where
  "readEscapes [] = Some []"
| "readEscapes [c] = (if c = PERCENT then None else Some [Literal c])"
| "readEscapes [c, d] =
     (if c = PERCENT then None
      else map_option (Cons (Literal c)) (readEscapes [d]))"
| "readEscapes (c # d # e # cs) =
     (if c = PERCENT then
        (case (hexVal d, hexVal e) of
           (Some x, Some y) \<Rightarrow> map_option (Cons (Octet (16 * x + y))) (readEscapes cs)
         | _ \<Rightarrow> None)
      else map_option (Cons (Literal c)) (readEscapes (d # e # cs)))"

text \<open>The number of leading 1 bits of an octet.\<close>

definition leadingOnes :: "nat \<Rightarrow> nat" where
  "leadingOnes b =
     (if b < 128 then 0 else if b < 192 then 1 else if b < 224 then 2
      else if b < 240 then 3 else if b < 248 then 4 else 5)"

definition isContinuation :: "token \<Rightarrow> bool" where
  "isContinuation t = (case t of Octet b \<Rightarrow> 128 \<le> b \<and> b < 192 | Literal c \<Rightarrow> False)"

definition payloadBits :: "token \<Rightarrow> nat" where
  "payloadBits t = (case t of Octet b \<Rightarrow> b mod 64 | Literal c \<Rightarrow> 0)"

text \<open>The code point of a sequence of \<open>n\<close> octets with lead octet \<open>b\<close>, when the sequence is
  valid UTF-8: no overlong form, no surrogate, at most \<open>0x10FFFF\<close>.\<close>

definition codePoint :: "nat \<Rightarrow> nat \<Rightarrow> token list \<Rightarrow> nat option" where
  "codePoint n b conts =
     (let lead = (if n = 2 then b mod 32 else if n = 3 then b mod 16 else b mod 8);
          v = foldl (\<lambda>acc t. acc * 64 + payloadBits t) lead conts;
          least = (if n = 2 then 128 else if n = 3 then 2048 else 65536)
      in if v < least \<or> (55296 \<le> v \<and> v \<le> 57343) \<or> 1114111 < v then None else Some v)"

definition utf16 :: "nat \<Rightarrow> jsstring" where
  "utf16 v =
     (if v < 65536 then [v]
      else [55296 + (v - 65536) div 1024, 56320 + (v - 65536) mod 1024])"

fun decodeOctets :: "token list \<Rightarrow> jsstring option" where
  "decodeOctets [] = Some []"
| "decodeOctets (Literal c # ts) = map_option (Cons c) (decodeOctets ts)"
| "decodeOctets (Octet b # ts) =
     (let n = leadingOnes b in
      if n = 0 then map_option (Cons b) (decodeOctets ts)
      else if n = 1 \<or> 4 < n then None
      else if length ts < n - 1 \<or> \<not> list_all isContinuation (take (n - 1) ts) then None
      else (case codePoint n b (take (n - 1) ts) of
              None \<Rightarrow> None
            | Some v \<Rightarrow> map_option (\<lambda>r. utf16 v @ r) (decodeOctets (drop (n - 1) ts))))"

definition decodeURIComponent :: "jsstring \<Rightarrow> jsstring option" where
  "decodeURIComponent s =
     (case readEscapes s of None \<Rightarrow> None | Some ts \<Rightarrow> decodeOctets ts)"

subsection \<open>Unary plus on a string\<close>

text \<open>
  \<open>+str\<close> is the conversion StringToNumber of ECMA-262. White space and line terminators
  are trimmed at both ends. The empty string is 0. A literal \<open>0x\<close>, \<open>0o\<close> or \<open>0b\<close>
  with digits of its base, or a decimal literal (an optional sign, then \<open>Infinity\<close>, or
  digits with an optional fraction and an optional exponent, a digit at least before the
  exponent) has its mathematical value, rounded to the nearest double, to the even one
  of two nearest, and to an infinity from \<open>2^1024 - 2^970\<close> on. Any other string is NaN.
\<close>

definition isStrWhiteSpaceChar :: "nat \<Rightarrow> bool" where
  "isStrWhiteSpaceChar c \<longleftrightarrow>
     c = 9 \<or> c = 10 \<or> c = 11 \<or> c = 12 \<or> c = 13 \<or> c = 32 \<or> c = 160 \<or> c = 5760
     \<or> (8192 \<le> c \<and> c \<le> 8202) \<or> c = 8232 \<or> c = 8233 \<or> c = 8239 \<or> c = 8287
     \<or> c = 12288 \<or> c = 65279"

definition trimString :: "jsstring \<Rightarrow> jsstring" where
  "trimString s =
     rev (dropWhile isStrWhiteSpaceChar (rev (dropWhile isStrWhiteSpaceChar s)))"

definition isDigitOfBase :: "nat \<Rightarrow> nat \<Rightarrow> bool" where
  "isDigitOfBase b c = (case hexVal c of None \<Rightarrow> False | Some d \<Rightarrow> d < b)"

definition digitsValue :: "nat \<Rightarrow> jsstring \<Rightarrow> nat" where
  "digitsValue b ds =
     foldl (\<lambda>a c. b * a + (case hexVal c of None \<Rightarrow> 0 | Some d \<Rightarrow> d)) 0 ds"

text \<open>The number of binary digits of a natural number.\<close>

fun bitLength :: "nat \<Rightarrow> nat" where
  "bitLength n = (if n = 0 then 0 else Suc (bitLength (n div 2)))"

declare bitLength.simps [simp del]

text \<open>\<open>2\<close> to the power \<open>k\<close>, for an integer \<open>k\<close>.\<close>

definition pow2 :: "int \<Rightarrow> rat" where
  "pow2 k = 2 ^ nat k / 2 ^ nat (- k)"

text \<open>The quotient \<open>a / b\<close> rounded to the nearest integer, to the even one of two
  nearest.\<close>

definition roundHalfEvenDiv :: "nat \<Rightarrow> nat \<Rightarrow> nat" where
  "roundHalfEvenDiv a b =
     (if 2 * (a mod b) < b then a div b
      else if b < 2 * (a mod b) then a div b + 1
      else if even (a div b) then a div b else a div b + 1)"

text \<open>
  The double nearest to \<open>n / d\<close> (with \<open>d\<close> positive), negated when \<open>neg\<close>. The binary
  exponent \<open>e\<close> of the quotient, with \<open>2^e \<le> n / d < 2^(e + 1)\<close>, is the difference \<open>k\<close> of
  the bit lengths when \<open>2^k \<le> n / d\<close>, and one less otherwise. The doubles near the
  quotient are the multiples of \<open>2^p\<close> for \<open>p = max e (-1022) - 52\<close>, and the quotient is
  rounded to \<open>m\<close> times \<open>2^p\<close>. That is an infinity from \<open>2^1024\<close> on, which is when the bit
  length of \<open>m\<close> and \<open>p\<close> together exceed 1024.
\<close>

definition exponentNear :: "int \<Rightarrow> nat \<Rightarrow> nat \<Rightarrow> int" where
  "exponentNear k n d = (if 2 ^ nat k * d \<le> 2 ^ nat (- k) * n then k else k - 1)"

definition binaryExponent :: "nat \<Rightarrow> nat \<Rightarrow> int" where
  "binaryExponent n d = exponentNear (int (bitLength n) - int (bitLength d)) n d"

definition quantumExponent :: "nat \<Rightarrow> nat \<Rightarrow> int" where
  "quantumExponent n d = max (binaryExponent n d) (- 1022) - 52"

definition significand :: "int \<Rightarrow> nat \<Rightarrow> nat \<Rightarrow> nat" where
  "significand p n d = roundHalfEvenDiv (n * 2 ^ nat (- p)) (d * 2 ^ nat p)"

definition doubleOf :: "bool \<Rightarrow> nat \<Rightarrow> int \<Rightarrow> number" where
  "doubleOf neg m p =
     (if 1024 < int (bitLength m) + p
      then (if neg then NegInfinity else PosInfinity)
      else Finite (if neg then - (of_int (int m) * pow2 p) else of_int (int m) * pow2 p))"

definition toDouble :: "bool \<Rightarrow> nat \<Rightarrow> nat \<Rightarrow> number" where
  "toDouble neg n d =
     (if n = 0 then Finite 0
      else doubleOf neg (significand (quantumExponent n d) n d) (quantumExponent n d))"

text \<open>\<open>0x\<close>, \<open>0o\<close> or \<open>0b\<close>, in either case, and digits of the base.\<close>

definition radixOf :: "nat \<Rightarrow> nat" where
  "radixOf p =
     (if p = 120 \<or> p = 88 then 16
      else if p = 111 \<or> p = 79 then 8
      else if p = 98 \<or> p = 66 then 2 else 0)"

definition nonDecimalIntegerLiteral :: "jsstring \<Rightarrow> nat option" where
  "nonDecimalIntegerLiteral s =
     (case s of
        z # p # ds \<Rightarrow>
          if z = 48 \<and> radixOf p \<noteq> 0 \<and> ds \<noteq> [] \<and> list_all (isDigitOfBase (radixOf p)) ds
          then Some (digitsValue (radixOf p) ds) else None
      | _ \<Rightarrow> None)"

text \<open>The exponent after \<open>e\<close> or \<open>E\<close>: an optional sign and digits.\<close>

definition signedDigits :: "bool \<Rightarrow> jsstring \<Rightarrow> int option" where
  "signedDigits neg ds =
     (if ds \<noteq> [] \<and> list_all (isDigitOfBase 10) ds
      then Some (if neg then - int (digitsValue 10 ds) else int (digitsValue 10 ds))
      else None)"

definition exponentPart :: "jsstring \<Rightarrow> int option" where
  "exponentPart s =
     (case s of
        [] \<Rightarrow> None
      | c # r \<Rightarrow>
          if c = 43 then signedDigits False r
          else if c = 45 then signedDigits True r
          else signedDigits False s)"

text \<open>
  A decimal literal without its sign, read from the left: the digits \<open>ip\<close> before the
  point, the digits \<open>fp\<close> after it, the exponent. One of \<open>ip\<close> and \<open>fp\<close> has a digit. The
  value is the digits, as one number, times \<open>10\<close> to the exponent less the number of
  digits after the point.
\<close>

definition scaled :: "bool \<Rightarrow> nat \<Rightarrow> int \<Rightarrow> number" where
  "scaled neg v t = toDouble neg (v * 10 ^ nat t) (10 ^ nat (- t))"

definition withExponent :: "bool \<Rightarrow> jsstring \<Rightarrow> jsstring \<Rightarrow> jsstring \<Rightarrow> number" where
  "withExponent neg ip fp rest =
     (if ip = [] \<and> fp = [] then NaN
      else (case rest of
              [] \<Rightarrow> scaled neg (digitsValue 10 (ip @ fp)) (- int (length fp))
            | c # r \<Rightarrow>
                if c = 101 \<or> c = 69 then
                  (case exponentPart r of
                     None \<Rightarrow> NaN
                   | Some x \<Rightarrow> scaled neg (digitsValue 10 (ip @ fp)) (x - int (length fp)))
                else NaN))"

definition withFraction :: "bool \<Rightarrow> jsstring \<Rightarrow> jsstring \<Rightarrow> number" where
  "withFraction neg ip rest =
     (case rest of
        [] \<Rightarrow> withExponent neg ip [] []
      | c # r \<Rightarrow>
          if c = 46
          then withExponent neg ip (takeWhile (isDigitOfBase 10) r)
                 (dropWhile (isDigitOfBase 10) r)
          else withExponent neg ip [] rest)"

definition strUnsignedDecimalLiteral :: "bool \<Rightarrow> jsstring \<Rightarrow> number" where
  "strUnsignedDecimalLiteral neg s =
     (if s = js ''Infinity'' then (if neg then NegInfinity else PosInfinity)
      else withFraction neg (takeWhile (isDigitOfBase 10) s) (dropWhile (isDigitOfBase 10) s))"

definition strNumericLiteral :: "jsstring \<Rightarrow> number" where
  "strNumericLiteral s =
     (case nonDecimalIntegerLiteral s of
        Some v \<Rightarrow> toDouble False v 1
      | None \<Rightarrow>
          (case s of
             [] \<Rightarrow> NaN
           | c # r \<Rightarrow>
               if c = 43 then strUnsignedDecimalLiteral False r
               else if c = 45 then strUnsignedDecimalLiteral True r
               else strUnsignedDecimalLiteral False s))"

definition unaryPlus :: "jsstring \<Rightarrow> number" where
  "unaryPlus str =
     (if trimString str = [] then Finite 0 else strNumericLiteral (trimString str))"

section \<open>The source file\<close>

text \<open>\<open>const decodeUTF8 = (str) => decodeURIComponent(escape(str))\<close>\<close>

definition decodeUTF8 :: "jsstring \<Rightarrow> jsstring option" where
  "decodeUTF8 str = decodeURIComponent (escape str)"

text \<open>\<open>const normalizeToLF = (str) => str.replace(/\r\n|\r/g, '\n')\<close>\<close>

fun normalizeToLF :: "jsstring \<Rightarrow> jsstring" where
  "normalizeToLF [] = []"
| "normalizeToLF [c] = (if c = CR then [LF] else [c])"
| "normalizeToLF (c # d # cs) =
     (if c = CR \<and> d = LF then LF # normalizeToLF cs
      else if c = CR then LF # normalizeToLF (d # cs)
      else c # normalizeToLF (d # cs))"

subsection \<open>The class \<open>EventSourcePolyfill\<close>\<close>

text \<open>\<open>enum Fields\<close> and \<open>interface MessagePayload\<close>. The field of a payload is a line
  prefix cast to \<open>Fields\<close>, that is, any string.\<close>

definition EVENT :: jsstring where "EVENT = js ''event''"
definition DATA :: jsstring where "DATA = js ''data''"
definition ID :: jsstring where "ID = js ''id''"
definition RETRY :: jsstring where "RETRY = js ''retry''"

record MessagePayload =
  field :: jsstring
  val :: jsstring

abbreviation (input) CONNECTING :: nat where "CONNECTING \<equiv> 0"
abbreviation (input) OPEN :: nat where "OPEN \<equiv> 1"
abbreviation (input) CLOSED :: nat where "CLOSED \<equiv> 2"

text \<open>
  What the class does to its collaborators is recorded, in order, in a trace: the events
  given to \<open>dispatchEvent\<close>, the requests sent, the requests aborted, the timers set,
  and an exception that leaves a callback uncaught. The listeners that \<open>dispatchEvent\<close>
  runs belong to the application and are taken not to call back into the client while
  an event is dispatched.
\<close>

datatype event =
    Open
  | Error
  | Message jsstring jsstring jsstring jsstring
    \<comment> \<open>type, data, origin, lastEventId\<close>

record request =
  req_handle :: nat
  req_url :: jsstring
  req_withCredentials :: bool
  req_headers :: "(jsstring \<times> jsstring) list"

datatype effect =
    DispatchEvent event
  | XhrSend request
  | XhrAbort nat
  | SetTimeout number
  | Uncaught_URIError

text \<open>
  The fields of the class, with \<open>xhr\<close> the handle of the request made last (requests are
  numbered in the order they are made, \<open>xhrCount\<close> counts them) and the trace.
\<close>

record client =
  url :: jsstring
  withCredentials :: bool
  lastEventId :: jsstring
  reconnectionTime :: number
  responseTextCursor :: nat
  eventTypeBuffer :: jsstring
  idBuffer :: jsstring
  dataBuffer :: jsstring
  canReconnect :: bool
  readyState :: nat
  xhr :: "nat option"
  xhrCount :: nat
  trace :: "effect list"

text \<open>
  What a callback sees of its \<open>XMLHttpRequest\<close>: a header that is absent reads as
  \<open>None\<close>, and so does a \<open>responseText\<close> whose read throws.
\<close>

record XMLHttpRequest =
  handle :: nat
  xhr_readyState :: nat
  status :: nat
  contentType :: "jsstring option"
  location :: "jsstring option"
  responseText :: "jsstring option"
  responseURL :: jsstring

definition dispatchEvent :: "event \<Rightarrow> client \<Rightarrow> client" where
  "dispatchEvent e st = st\<lparr>trace := trace st @ [DispatchEvent e]\<rparr>"

text \<open>\<open>xhr.abort()\<close>. The abort notifies \<open>onreadystatechange\<close> at once; every call of the
  source comes after \<open>readyState = CLOSED\<close>, where that callback returns at its first
  line, so the notification is left out.\<close>

definition abort :: "nat \<Rightarrow> client \<Rightarrow> client" where
  "abort h st = st\<lparr>trace := trace st @ [XhrAbort h]\<rparr>"

definition announceConnection :: "client \<Rightarrow> client" where
  "announceConnection st =
     (dispatchEvent Open (st\<lparr>readyState := OPEN\<rparr>))\<lparr>responseTextCursor := 0\<rparr>"

text \<open>\<open>connect\<close>, up to \<open>xhr.send()\<close>; the callback it installs is \<open>onreadystatechange\<close>
  below.\<close>

definition connect :: "jsstring \<Rightarrow> client \<Rightarrow> client" where
  "connect u st =
     (let h = xhrCount st;
          headers = [(js ''Accept'', js ''text/event-stream''),
                     (js ''Cache-Control'', js ''no-cache'')]
                    @ (if lastEventId st \<noteq> [] then [(js ''Last-Event-ID'', lastEventId st)]
                       else [])
      in st\<lparr>readyState := CONNECTING, xhr := Some h, xhrCount := Suc h,
            trace := trace st @ [XhrSend \<lparr>req_handle = h, req_url = u,
                                          req_withCredentials = withCredentials st,
                                          req_headers = headers\<rparr>]\<rparr>)"

definition dispatchMessageEvent :: "jsstring \<Rightarrow> client \<Rightarrow> client" where
  "dispatchMessageEvent origin st0 =
     (let st = st0\<lparr>lastEventId := idBuffer st0\<rparr> in
      if dataBuffer st = [] then st\<lparr>eventTypeBuffer := []\<rparr>
      else
        (let st1 = (if last (dataBuffer st) = LF
                    then st\<lparr>dataBuffer := butlast (dataBuffer st)\<rparr> else st);
             eventType = (if eventTypeBuffer st1 \<noteq> [] then eventTypeBuffer st1
                          else js ''message'');
             ev = Message eventType (dataBuffer st1) origin (lastEventId st1)
         in dispatchEvent ev (st1\<lparr>eventTypeBuffer := [], dataBuffer := []\<rparr>)))"

definition failConnection :: "nat \<Rightarrow> bool \<Rightarrow> client \<Rightarrow> client" where
  "failConnection h isSilent st0 =
     (let st = st0\<lparr>readyState := CLOSED\<rparr>;
          st1 = (if \<not> isSilent then dispatchEvent Error st else st)
      in abort h (st1\<lparr>canReconnect := False\<rparr>))"

definition handleConnection :: "XMLHttpRequest \<Rightarrow> client \<Rightarrow> client" where
  "handleConnection x st =
     (if readyState st = CONNECTING then
        (case contentType x of
           None \<Rightarrow> failConnection (handle x) False st
         | Some ct \<Rightarrow>
             if ct \<noteq> [] \<and> toLowerCase ct = js ''text/event-stream''
             then announceConnection st
             else failConnection (handle x) False st)
      else st)"

text \<open>
  \<open>processField\<close>. The unary plus of the \<open>retry\<close> case is the built-in conversion of a
  string to a number. The functions take the conversion as the parameter \<open>toNumber\<close>;
  in the source it is \<open>unaryPlus\<close>, and every run of the client below is with
  \<open>unaryPlus\<close>.
\<close>

definition processField :: "(jsstring \<Rightarrow> number) \<Rightarrow> MessagePayload \<Rightarrow> client \<Rightarrow> client" where
  "processField toNumber payload st =
     (if field payload = EVENT then st\<lparr>eventTypeBuffer := val payload\<rparr>
      else if field payload = DATA then st\<lparr>dataBuffer := dataBuffer st @ val payload @ [LF]\<rparr>
      else if field payload = ID then
        (if indexOf (val payload) NUL = -1 then st\<lparr>idBuffer := val payload\<rparr> else st)
      else if field payload = RETRY then
        (let interval = toNumber (val payload) in
         if Number_isInteger interval then st\<lparr>reconnectionTime := interval\<rparr> else st)
      else st)"

text \<open>The field parser of \<open>interpretStream\<close>, for a line that is not empty: \<open>None\<close> is a
  comment line.\<close>

definition parseLine :: "jsstring \<Rightarrow> MessagePayload option" where
  "parseLine line =
     (let firstColonIdx = indexOf line COLON in
      if firstColonIdx = 0 then None
      else if firstColonIdx \<noteq> -1 then
        (let fld = substring line 0 (nat firstColonIdx);
             untrimmedVal = substringFrom line (nat (firstColonIdx + 1));
             v = (if indexOf untrimmedVal SPACE = 0 then drop 1 untrimmedVal
                  else untrimmedVal)
         in Some \<lparr>field = fld, val = v\<rparr>)
      else Some \<lparr>field = line, val = []\<rparr>)"

text \<open>The body of the loop over the lines, and the loop.\<close>

definition interpretLine ::
  "(jsstring \<Rightarrow> number) \<Rightarrow> jsstring \<Rightarrow> client \<Rightarrow> jsstring \<Rightarrow> client" where
  "interpretLine toNumber origin st line =
     (if line = [] then dispatchMessageEvent origin st
      else (case parseLine line of
              None \<Rightarrow> st
            | Some payload \<Rightarrow> processField toNumber payload st))"

definition interpretLines ::
  "(jsstring \<Rightarrow> number) \<Rightarrow> jsstring \<Rightarrow> jsstring list \<Rightarrow> client \<Rightarrow> client" where
  "interpretLines toNumber origin lines st = foldl (interpretLine toNumber origin) st lines"

text \<open>\<open>interpretStream\<close>. \<open>decodeUTF8\<close> is called outside the \<open>try\<close>: when it throws, the
  cursor has moved and the exception leaves the callback.\<close>

definition interpretStream :: "(jsstring \<Rightarrow> number) \<Rightarrow> XMLHttpRequest \<Rightarrow> client \<Rightarrow> client" where
  "interpretStream toNumber x st =
     (if readyState st \<noteq> OPEN then st
      else (case responseText x of
              None \<Rightarrow> st
            | Some text \<Rightarrow>
                (let rawChunk = substringFrom text (responseTextCursor st);
                     st1 = st\<lparr>responseTextCursor := length text\<rparr>
                 in case decodeUTF8 rawChunk of
                      None \<Rightarrow> st1\<lparr>trace := trace st1 @ [Uncaught_URIError]\<rparr>
                    | Some decoded \<Rightarrow>
                        interpretLines toNumber (responseURL x)
                          (split_str (normalizeToLF decoded) LF) st1)))"

text \<open>\<open>reestablishConnection\<close>, and the callback it gives to \<open>setTimeout\<close>.\<close>

definition reestablishConnection :: "client \<Rightarrow> client" where
  "reestablishConnection st =
     (if readyState st = CLOSED \<or> \<not> canReconnect st then st
      else (let st1 = dispatchEvent Error (st\<lparr>readyState := CONNECTING\<rparr>)
            in st1\<lparr>trace := trace st1 @ [SetTimeout (reconnectionTime st1)]\<rparr>))"

definition timerCallback :: "client \<Rightarrow> client" where
  "timerCallback st = (if readyState st \<noteq> CONNECTING then st else connect (url st) st)"

text \<open>The callback \<open>xhr.onreadystatechange\<close> that \<open>connect\<close> installs on its request.\<close>

definition onreadystatechange ::
  "(jsstring \<Rightarrow> number) \<Rightarrow> XMLHttpRequest \<Rightarrow> client \<Rightarrow> client" where
  "onreadystatechange toNumber x st =
     (if xhr_readyState x \<le> 1 \<or> readyState st = CLOSED then st
      else if xhr_readyState x = 4 then reestablishConnection st
      else if status x = 200 then interpretStream toNumber x (handleConnection x st)
      else if status x = 204 then st\<lparr>canReconnect := False\<rparr>
      else if status x = 301 \<or> status x = 307 then
        (let redirectUrl = location x;
             st1 = failConnection (handle x) True st
         in case redirectUrl of
              None \<Rightarrow> st1
            | Some u \<Rightarrow> if u \<noteq> [] then connect u st1 else st1)
      else failConnection (handle x) False st)"

definition close :: "client \<Rightarrow> client" where
  "close st =
     (let st1 = st\<lparr>readyState := CLOSED\<rparr>
      in case xhr st1 of None \<Rightarrow> st1 | Some h \<Rightarrow> abort h st1)"

text \<open>The constructor: the field initialisers, then \<open>connect()\<close>, which gives
  \<open>readyState\<close> its first value. The configuration is the \<open>withCredentials\<close> member,
  when there is one. The three listeners it registers pass each event on to \<open>onerror\<close>,
  \<open>onmessage\<close> and \<open>onopen\<close>; they are part of the dispatch.\<close>

definition constructor :: "jsstring \<Rightarrow> bool option \<Rightarrow> client" where
  "constructor u config =
     connect u
       \<lparr>url = u, withCredentials = (config = Some True), lastEventId = [],
        reconnectionTime = Finite 2000, responseTextCursor = 0, eventTypeBuffer = [],
        idBuffer = [], dataBuffer = [], canReconnect = True, readyState = CONNECTING,
        xhr = None, xhrCount = 0, trace = []\<rparr>"

subsection \<open>The event loop\<close>

text \<open>
  The client is driven by callbacks, one at a time: a progress notification of a request,
  with what the request shows then, or the reconnection timer.
\<close>

datatype callback = ReadyStateChange XMLHttpRequest | TimerFired

fun fire :: "(jsstring \<Rightarrow> number) \<Rightarrow> client \<Rightarrow> callback \<Rightarrow> client" where
  "fire toNumber st (ReadyStateChange x) = onreadystatechange toNumber x st"
| "fire toNumber st TimerFired = timerCallback st"

definition run :: "(jsstring \<Rightarrow> number) \<Rightarrow> callback list \<Rightarrow> client \<Rightarrow> client" where
  "run toNumber cbs st = foldl (fire toNumber) st cbs"

text \<open>The life of an instance: callbacks, and calls of \<open>close()\<close> by the application.\<close>

datatype input = Callback callback | CloseCall

fun step :: "(jsstring \<Rightarrow> number) \<Rightarrow> client \<Rightarrow> input \<Rightarrow> client" where
  "step toNumber st (Callback cb) = fire toNumber st cb"
| "step toNumber st CloseCall = close st"

definition steps :: "(jsstring \<Rightarrow> number) \<Rightarrow> input list \<Rightarrow> client \<Rightarrow> client" where
  "steps toNumber ins st = foldl (step toNumber) st ins"

section \<open>Notions of the specification and example inputs\<close>

text \<open>Strings joined by \<open>\n\<close>.\<close>

fun joinLF :: "jsstring list \<Rightarrow> jsstring" where
  "joinLF [] = []"
| "joinLF [v] = v"
| "joinLF (v # w # vs) = v @ [LF] @ joinLF (w # vs)"

text \<open>The value of a field line: what follows the colon, less one leading space.\<close>

definition fieldValue :: "jsstring \<Rightarrow> jsstring" where
  "fieldValue w = (case w of [] \<Rightarrow> [] | c # r \<Rightarrow> if c = SPACE then r else w)"

text \<open>A request that shows an event stream with the given text, at \<open>xhr.readyState = rs\<close>.\<close>

definition streamView :: "nat \<Rightarrow> jsstring \<Rightarrow> XMLHttpRequest" where
  "streamView rs text =
     \<lparr>handle = 0, xhr_readyState = rs, status = 200,
      contentType = Some (js ''text/event-stream''), location = None,
      responseText = Some text, responseURL = js ''http://h/sse''\<rparr>"

text \<open>A request that shows a response with no body: the status and the \<open>Location\<close>
  header.\<close>

definition statusView :: "nat \<Rightarrow> nat \<Rightarrow> jsstring option \<Rightarrow> XMLHttpRequest" where
  "statusView rs code loc =
     \<lparr>handle = 0, xhr_readyState = rs, status = code, contentType = None,
      location = loc, responseText = Some [], responseURL = js ''http://h/sse''\<rparr>"

text \<open>The response text arrives in chunks, with one progress notification after each.\<close>

fun deliver :: "jsstring \<Rightarrow> jsstring list \<Rightarrow> callback list" where
  "deliver received [] = []"
| "deliver received (chunk # chunks) =
     ReadyStateChange (streamView 3 (received @ chunk)) # deliver (received @ chunk) chunks"

text \<open>A client whose first request has shown the headers of an event stream.\<close>

definition opened :: client where
  "opened =
     onreadystatechange unaryPlus (streamView 2 [])
       (constructor (js ''http://h/sse'') None)"

text \<open>The client after the lines \<open>id: 7\<close> and \<open>event: x\<close>, with no data and no blank line
  yet.\<close>

definition pendingId :: client where
  "pendingId =
     interpretLines unaryPlus (js ''http://h/sse'') [js ''id: 7'', js ''event: x''] opened"

text \<open>The client in the reconnection backoff: the stream gave one event with id 7 and
  \<open>retry: 5000\<close>, then the request completed.\<close>

definition firstEvent :: jsstring where
  "firstEvent =
     js ''id: 7'' @ [LF] @ js ''retry: 5000'' @ [LF] @ js ''data: a'' @ [LF, LF]"

definition backoff :: client where
  "backoff =
     run unaryPlus
       (deliver [] [firstEvent] @ [ReadyStateChange (streamView 4 firstEvent)]) opened"

text \<open>Two \<open>data\<close> lines, with a space after the colon and without, and a blank line.\<close>

definition twoDataLines :: jsstring where
  "twoDataLines = js ''data: a'' @ [LF] @ js ''data:b'' @ [LF, LF]"

section \<open>Evaluation\<close>

text \<open>The definitions by which the simplifier runs the model on a given input.\<close>

lemmas string_eval =
  js_def substring_def substringFrom_def toLowerCase_def
  unescaped_def hexDigit_def escapeUnit_def escape_def hexVal_def leadingOnes_def
  isContinuation_def payloadBits_def codePoint_def utf16_def decodeURIComponent_def
  decodeUTF8_def

lemmas number_eval =
  isStrWhiteSpaceChar_def trimString_def isDigitOfBase_def digitsValue_def
  bitLength.simps pow2_def roundHalfEvenDiv_def exponentNear_def binaryExponent_def
  quantumExponent_def significand_def doubleOf_def toDouble_def radixOf_def
  nonDecimalIntegerLiteral_def signedDigits_def exponentPart_def scaled_def
  withExponent_def withFraction_def strUnsignedDecimalLiteral_def strNumericLiteral_def
  unaryPlus_def

lemmas client_eval =
  EVENT_def DATA_def ID_def RETRY_def dispatchEvent_def abort_def announceConnection_def
  connect_def dispatchMessageEvent_def failConnection_def handleConnection_def
  processField_def parseLine_def interpretLine_def interpretLines_def interpretStream_def
  reestablishConnection_def timerCallback_def onreadystatechange_def close_def
  constructor_def run_def steps_def Let_def

lemmas example_eval =
  streamView_def statusView_def opened_def pendingId_def firstEvent_def backoff_def
  twoDataLines_def

lemmas eval = string_eval number_eval client_eval example_eval

section \<open>String operations\<close>

lemma indexOf_absent: "c \<notin> set s \<Longrightarrow> indexOf s c = -1"
  by (induction s) auto

lemma indexOf_first: "c \<notin> set p \<Longrightarrow> indexOf (p @ c # r) c = int (length p)"
  by (induction p) (auto simp: Let_def)

lemma indexOf_present: "c \<in> set s \<Longrightarrow> indexOf s c \<noteq> -1"
proof -
  assume "c \<in> set s"
  then obtain p r where "s = p @ c # r" and "c \<notin> set p"
    by (auto dest: split_list_first)
  then show ?thesis by (simp add: indexOf_first)
qed

lemma split_str_line:
  "sep \<notin> set l \<Longrightarrow> split_str (l @ sep # rest) sep = l # split_str rest sep"
  by (induction l) auto

section \<open>The field parser\<close>

lemma parseLine_comment: "parseLine (COLON # rest) = None"
  by (simp add: parseLine_def)

lemma parseLine_field:
  assumes "COLON \<notin> set name" and "name \<noteq> []"
  shows "parseLine (name @ COLON # rest) =
           Some \<lparr>field = name,
                 val = (case rest of [] \<Rightarrow> [] | c # r \<Rightarrow> if c = SPACE then r else rest)\<rparr>"
proof -
  have idx: "indexOf (name @ COLON # rest) COLON = int (length name)"
    using assms(1) by (rule indexOf_first)
  have pos: "nat (int (length name) + 1) = Suc (length name)"
    by simp
  have "parseLine (name @ COLON # rest) =
          Some \<lparr>field = name, val = (if indexOf rest SPACE = 0 then drop 1 rest else rest)\<rparr>"
    using assms(2) by (simp add: parseLine_def idx pos substring_def substringFrom_def Let_def)
  moreover have "(if indexOf rest SPACE = 0 then drop 1 rest else rest) =
          (case rest of [] \<Rightarrow> [] | c # r \<Rightarrow> if c = SPACE then r else rest)"
    by (cases rest) (auto simp: Let_def)
  ultimately show ?thesis by simp
qed

lemma parseLine_bare:
  "COLON \<notin> set line \<Longrightarrow> parseLine line = Some \<lparr>field = line, val = []\<rparr>"
  by (simp add: parseLine_def indexOf_absent)

text \<open>
  C6. Of a line that is not empty, the parser makes: nothing, when the line starts with
  a colon (a comment); otherwise, when it has a colon, the name before the first colon
  and the value after it, less one leading space when there is one (a second space
  stays); and the whole line as the name, with the empty value, when it has no colon.
  The loop gives the payload to \<open>processField\<close> and leaves the state alone at a comment.
\<close>

theorem parseLine_fields:
  "parseLine (COLON # rest) = None \<and>
   (COLON \<notin> set name \<and> name \<noteq> [] \<longrightarrow>
      parseLine (name @ COLON # rest) =
        Some \<lparr>field = name,
              val = (case rest of [] \<Rightarrow> [] | c # r \<Rightarrow> if c = SPACE then r else rest)\<rparr>) \<and>
   (COLON \<notin> set line \<longrightarrow> parseLine line = Some \<lparr>field = line, val = []\<rparr>) \<and>
   (line \<noteq> [] \<longrightarrow>
      interpretLine toNumber origin st line =
        (case parseLine line of None \<Rightarrow> st
         | Some payload \<Rightarrow> processField toNumber payload st))"
  by (simp add: parseLine_comment parseLine_field parseLine_bare interpretLine_def)

theorem parseLine_fields_witness:
  "parseLine (COLON # js ''note'') = None \<and>
   COLON \<notin> set (js ''data'') \<and> js ''data'' \<noteq> [] \<and>
   parseLine (js ''data'' @ COLON # js ''  a'') = Some \<lparr>field = js ''data'', val = js '' a''\<rparr> \<and>
   COLON \<notin> set (js ''retry'') \<and> js ''retry'' \<noteq> [] \<and>
   parseLine (js ''retry'') = Some \<lparr>field = js ''retry'', val = []\<rparr>"
  using parseLine_fields [where rest = "js ''note''" and name = "js ''data''"
      and line = "js ''retry''"]
    parseLine_fields [where rest = "js ''  a''" and name = "js ''data''"
      and line = "js ''retry''"]
  by (simp add: js_def)

section \<open>Fields and the blank line\<close>

lemma field_names_distinct:
  "EVENT \<noteq> DATA" "EVENT \<noteq> ID" "EVENT \<noteq> RETRY" "DATA \<noteq> ID" "DATA \<noteq> RETRY"
  "ID \<noteq> RETRY" "DATA \<noteq> EVENT" "ID \<noteq> EVENT" "RETRY \<noteq> EVENT" "ID \<noteq> DATA"
  "RETRY \<noteq> DATA" "RETRY \<noteq> ID"
  by (simp_all add: EVENT_def DATA_def ID_def RETRY_def js_def)

lemma processField_data:
  "processField tn \<lparr>field = DATA, val = v\<rparr> st = st\<lparr>dataBuffer := dataBuffer st @ v @ [LF]\<rparr>"
  by (simp add: processField_def field_names_distinct)

lemma processField_id_NUL:
  "NUL \<in> set v \<Longrightarrow> processField tn \<lparr>field = ID, val = v\<rparr> st = st"
  by (simp add: processField_def field_names_distinct indexOf_present)

lemma processField_retry:
  "processField tn \<lparr>field = RETRY, val = v\<rparr> st =
     (if Number_isInteger (tn v) then st\<lparr>reconnectionTime := tn v\<rparr> else st)"
  by (simp add: processField_def field_names_distinct Let_def)

lemma dispatchMessageEvent_empty:
  "dataBuffer st = [] \<Longrightarrow>
     dispatchMessageEvent origin st = st\<lparr>lastEventId := idBuffer st, eventTypeBuffer := []\<rparr>"
  by (simp add: dispatchMessageEvent_def Let_def)

lemma lastEventId_dispatchMessageEvent:
  "lastEventId (dispatchMessageEvent origin st) = idBuffer st"
  by (simp add: dispatchMessageEvent_def Let_def dispatchEvent_def)

lemma dispatchMessageEvent_data:
  "dataBuffer st = b @ [LF] \<Longrightarrow>
     dispatchMessageEvent origin st =
       st\<lparr>lastEventId := idBuffer st, eventTypeBuffer := [], dataBuffer := [],
          trace := trace st @
            [DispatchEvent
               (Message (if eventTypeBuffer st \<noteq> [] then eventTypeBuffer st else js ''message'')
                  b origin (idBuffer st))]\<rparr>"
  by (simp add: dispatchMessageEvent_def Let_def dispatchEvent_def)

text \<open>
  C4. A blank line runs \<open>dispatchMessageEvent\<close>. It commits the pending id as
  \<open>lastEventId\<close> whatever the data; when the data buffer is empty it changes nothing
  else but the event type, which it empties: the trace stays as it is, no event is
  dispatched.
\<close>

theorem blank_line_flush:
  "interpretLine toNumber origin st [] = dispatchMessageEvent origin st \<and>
   lastEventId (dispatchMessageEvent origin st) = idBuffer st \<and>
   (dataBuffer st = [] \<longrightarrow>
      dispatchMessageEvent origin st = st\<lparr>lastEventId := idBuffer st, eventTypeBuffer := []\<rparr>)"
  by (simp add: interpretLine_def lastEventId_dispatchMessageEvent dispatchMessageEvent_empty)

theorem blank_line_flush_witness:
  "dataBuffer pendingId = [] \<and> lastEventId pendingId = [] \<and>
   eventTypeBuffer pendingId = js ''x'' \<and>
   lastEventId (interpretLine unaryPlus (js ''http://h/sse'') pendingId []) = js ''7'' \<and>
   eventTypeBuffer (interpretLine unaryPlus (js ''http://h/sse'') pendingId []) = [] \<and>
   trace (interpretLine unaryPlus (js ''http://h/sse'') pendingId []) = trace pendingId"
proof -
  have d: "dataBuffer pendingId = []" by (simp add: eval)
  have l: "lastEventId pendingId = []" by (simp add: eval)
  have e: "eventTypeBuffer pendingId = js ''x''" by (simp add: eval)
  have i: "idBuffer pendingId = js ''7''" by (simp add: eval)
  from blank_line_flush [of unaryPlus "js ''http://h/sse''" pendingId] d
  have "interpretLine unaryPlus (js ''http://h/sse'') pendingId [] =
          pendingId\<lparr>lastEventId := idBuffer pendingId, eventTypeBuffer := []\<rparr>"
    by simp
  then show ?thesis using d l e i by simp
qed

text \<open>
  C3. A line \<open>retry\<close> with no value, which is no integer, sets the reconnection delay
  to 0: the parser gives the field the empty value, unary plus takes the empty string
  to 0, and \<open>Number.isInteger\<close> holds of 0. When the request completes, the timer is set
  to that delay, 0. The values \<open>abc\<close> and \<open>1.5\<close> leave the delay of 2000 as it is, and
  \<open>5000\<close> sets it to 5000.
\<close>

theorem empty_retry_sets_zero:
  "parseLine (js ''retry'') = Some \<lparr>field = RETRY, val = []\<rparr> \<and>
   unaryPlus [] = Finite 0 \<and>
   reconnectionTime opened = Finite 2000 \<and>
   reconnectionTime (run unaryPlus (deliver [] [js ''retry'' @ [LF]]) opened) = Finite 0 \<and>
   trace (run unaryPlus
            (deliver [] [js ''retry'' @ [LF]] @
             [ReadyStateChange (streamView 4 (js ''retry'' @ [LF]))]) opened) =
     trace opened @ [DispatchEvent Error, SetTimeout (Finite 0)] \<and>
   reconnectionTime (run unaryPlus (deliver [] [js ''retry: abc'' @ [LF]]) opened)
     = Finite 2000 \<and>
   reconnectionTime (run unaryPlus (deliver [] [js ''retry: 1.5'' @ [LF]]) opened)
     = Finite 2000 \<and>
   reconnectionTime (run unaryPlus (deliver [] [js ''retry: 5000'' @ [LF]]) opened)
     = Finite 5000"
proof -
  have 1: "parseLine (js ''retry'') = Some \<lparr>field = RETRY, val = []\<rparr>"
    by (simp add: eval)
  have 2: "unaryPlus [] = Finite 0"
    by (simp add: eval)
  have 3: "reconnectionTime opened = Finite 2000"
    by (simp add: eval)
  have 4: "reconnectionTime (run unaryPlus (deliver [] [js ''retry'' @ [LF]]) opened) = Finite 0"
    by (simp add: eval)
  have 5: "trace (run unaryPlus
                   (deliver [] [js ''retry'' @ [LF]] @
                    [ReadyStateChange (streamView 4 (js ''retry'' @ [LF]))]) opened) =
             trace opened @ [DispatchEvent Error, SetTimeout (Finite 0)]"
    by (simp add: eval)
  have 6: "reconnectionTime (run unaryPlus (deliver [] [js ''retry: abc'' @ [LF]]) opened)
             = Finite 2000"
    by (simp add: eval)
  have h: "\<lfloor>3 / 2 :: rat\<rfloor> = 1"
    by (rule floor_unique) simp_all
  have 7: "reconnectionTime (run unaryPlus (deliver [] [js ''retry: 1.5'' @ [LF]]) opened)
             = Finite 2000"
    by (simp add: eval h)
  have 8: "reconnectionTime (run unaryPlus (deliver [] [js ''retry: 5000'' @ [LF]]) opened)
             = Finite 5000"
    by (simp add: eval)
  show ?thesis using 1 2 3 4 5 6 7 8 by blast
qed

section \<open>Requests\<close>

lemma trace_connect:
  "trace (connect u st) =
     trace st @
     [XhrSend \<lparr>req_handle = xhrCount st, req_url = u,
               req_withCredentials = withCredentials st,
               req_headers = [(js ''Accept'', js ''text/event-stream''),
                              (js ''Cache-Control'', js ''no-cache'')]
                             @ (if lastEventId st = [] then []
                                else [(js ''Last-Event-ID'', lastEventId st)])\<rparr>]"
  by (simp add: connect_def Let_def)

text \<open>
  C7. An \<open>id\<close> field whose value has a NUL leaves the client as it is, the pending id
  and the committed one included. A request carries the committed \<open>lastEventId\<close> in
  \<open>Last-Event-ID\<close>, and no such header when that id is empty; the reconnection timer
  makes such a request to the client's URL.
\<close>

theorem id_with_NUL_ignored:
  assumes "NUL \<in> set v"
  shows "processField toNumber \<lparr>field = ID, val = v\<rparr> st = st \<and>
         trace (connect u (processField toNumber \<lparr>field = ID, val = v\<rparr> st)) =
           trace st @
           [XhrSend \<lparr>req_handle = xhrCount st, req_url = u,
                     req_withCredentials = withCredentials st,
                     req_headers = [(js ''Accept'', js ''text/event-stream''),
                                    (js ''Cache-Control'', js ''no-cache'')]
                                   @ (if lastEventId st = [] then []
                                      else [(js ''Last-Event-ID'', lastEventId st)])\<rparr>] \<and>
         (readyState st = CONNECTING \<longrightarrow> timerCallback st = connect (url st) st)"
  using assms by (simp add: processField_id_NUL trace_connect timerCallback_def)

theorem id_with_NUL_ignored_witness:
  "NUL \<in> set (js ''x'' @ [NUL] @ js ''y'') \<and>
   readyState backoff = CONNECTING \<and> idBuffer backoff = js ''7'' \<and>
   lastEventId backoff = js ''7'' \<and>
   processField unaryPlus \<lparr>field = ID, val = js ''x'' @ [NUL] @ js ''y''\<rparr> backoff
     = backoff \<and>
   trace (timerCallback backoff) =
     trace backoff @
     [XhrSend \<lparr>req_handle = 1, req_url = js ''http://h/sse'', req_withCredentials = False,
               req_headers = [(js ''Accept'', js ''text/event-stream''),
                              (js ''Cache-Control'', js ''no-cache''),
                              (js ''Last-Event-ID'', js ''7'')]\<rparr>]"
proof -
  have n: "NUL \<in> set (js ''x'' @ [NUL] @ js ''y'')" by simp
  have r: "readyState backoff = CONNECTING" by (simp add: eval)
  have i: "idBuffer backoff = js ''7''" by (simp add: eval)
  have l: "lastEventId backoff = js ''7''" by (simp add: eval)
  have c: "xhrCount backoff = 1" by (simp add: eval)
  have u: "url backoff = js ''http://h/sse''" by (simp add: eval)
  have w: "withCredentials backoff = False" by (simp add: eval)
  have e: "js ''7'' \<noteq> []" by (simp add: js_def)
  note t = id_with_NUL_ignored [OF n, of unaryPlus backoff "url backoff"]
  from t have 1: "processField unaryPlus
                    \<lparr>field = ID, val = js ''x'' @ [NUL] @ js ''y''\<rparr> backoff = backoff"
    by blast
  from t r have 2: "timerCallback backoff = connect (url backoff) backoff"
    by blast
  from t have "trace (connect (url backoff)
                 (processField unaryPlus
                    \<lparr>field = ID, val = js ''x'' @ [NUL] @ js ''y''\<rparr> backoff)) =
      trace backoff @
      [XhrSend \<lparr>req_handle = xhrCount backoff, req_url = url backoff,
                req_withCredentials = withCredentials backoff,
                req_headers = [(js ''Accept'', js ''text/event-stream''),
                               (js ''Cache-Control'', js ''no-cache'')]
                              @ (if lastEventId backoff = [] then []
                                 else [(js ''Last-Event-ID'', lastEventId backoff)])\<rparr>]"
    by blast
  then have "trace (timerCallback backoff) =
      trace backoff @
      [XhrSend \<lparr>req_handle = xhrCount backoff, req_url = url backoff,
                req_withCredentials = withCredentials backoff,
                req_headers = [(js ''Accept'', js ''text/event-stream''),
                               (js ''Cache-Control'', js ''no-cache'')]
                              @ (if lastEventId backoff = [] then []
                                 else [(js ''Last-Event-ID'', lastEventId backoff)])\<rparr>]"
    unfolding 1 2 .
  then show ?thesis using n r i l c u w e 1 by simp
qed

section \<open>The connection\<close>

lemma fire_closed: "readyState st = CLOSED \<Longrightarrow> fire tn st cb = st"
  by (cases cb) (simp_all add: onreadystatechange_def timerCallback_def)

lemma run_closed: "readyState st = CLOSED \<Longrightarrow> run tn cbs st = st"
  by (induction cbs) (simp_all add: run_def fire_closed)

lemma readyState_close: "readyState (close st) = CLOSED"
  by (simp add: close_def abort_def Let_def split: option.splits)

text \<open>
  C9. After \<open>close()\<close> the state is CLOSED, and whatever callbacks come then, progress
  notifications of any request and the reconnection timer, in any number and order, leave
  the client exactly as \<open>close()\<close> left it: no event, no timer, no request.
\<close>

theorem close_is_final:
  "readyState (close st) = CLOSED \<and> run toNumber cbs (close st) = close st"
  by (simp add: readyState_close run_closed)

theorem close_is_final_witness:
  "readyState backoff = CONNECTING \<and>
   trace (timerCallback backoff) \<noteq> trace backoff \<and>
   readyState (close backoff) = CLOSED \<and>
   run unaryPlus
     [TimerFired, ReadyStateChange (streamView 3 firstEvent), TimerFired] (close backoff)
     = close backoff"
proof -
  have r: "readyState backoff = CONNECTING" by (simp add: eval)
  have "length (trace (timerCallback backoff)) = Suc (length (trace backoff))"
    using r by (simp add: timerCallback_def connect_def Let_def)
  then have t: "trace (timerCallback backoff) \<noteq> trace backoff" by auto
  show ?thesis
    using r t
      close_is_final [of backoff unaryPlus
        "[TimerFired, ReadyStateChange (streamView 3 firstEvent), TimerFired]"]
    by blast
qed

lemma no_content_again:
  "\<not> canReconnect st \<Longrightarrow> status y = 204 \<Longrightarrow> onreadystatechange tn y st = st"
  by (simp add: onreadystatechange_def reestablishConnection_def)

lemma run_no_content:
  "\<not> canReconnect st \<Longrightarrow> \<forall>y\<in>set ys. status y = 204 \<Longrightarrow>
     run tn (map ReadyStateChange ys) st = st"
  by (induction ys) (simp_all add: run_def no_content_again)

lemma no_content_first:
  "readyState st \<noteq> CLOSED \<Longrightarrow> 1 < xhr_readyState x \<Longrightarrow> xhr_readyState x \<noteq> 4 \<Longrightarrow>
     status x = 204 \<Longrightarrow> onreadystatechange tn x st = st\<lparr>canReconnect := False\<rparr>"
  by (simp add: onreadystatechange_def)

text \<open>
  C2, as the code has it. A client that is not closed and is notified of a response with
  status 204 (headers or progress, \<open>xhr.readyState\<close> 2 or 3) sets \<open>canReconnect\<close> to
  false and nothing else; every later notification of that response, its completion
  included, changes nothing. So no \<open>error\<close> event is dispatched and no timer is set, and
  \<open>readyState\<close> keeps the value it had: CONNECTING for a fresh request, not CLOSED.
\<close>

theorem no_content_latch:
  assumes "readyState st \<noteq> CLOSED" and "1 < xhr_readyState x" and "xhr_readyState x \<noteq> 4"
    and "status x = 204" and "\<forall>y\<in>set ys. status y = 204"
  shows "run toNumber (map ReadyStateChange (x # ys)) st = st\<lparr>canReconnect := False\<rparr>"
proof -
  have "run toNumber (map ReadyStateChange (x # ys)) st =
          run toNumber (map ReadyStateChange ys) (onreadystatechange toNumber x st)"
    by (simp add: run_def)
  also have "\<dots> = run toNumber (map ReadyStateChange ys) (st\<lparr>canReconnect := False\<rparr>)"
    using assms(1-4) by (simp add: no_content_first)
  also have "\<dots> = st\<lparr>canReconnect := False\<rparr>"
    using assms(5) by (simp add: run_no_content)
  finally show ?thesis .
qed

theorem no_content_latch_witness:
  "readyState (constructor (js ''http://h/sse'') None) \<noteq> CLOSED \<and>
   1 < xhr_readyState (statusView 2 204 None) \<and>
   xhr_readyState (statusView 2 204 None) \<noteq> 4 \<and>
   status (statusView 2 204 None) = 204 \<and>
   status (statusView 3 204 None) = 204 \<and> status (statusView 4 204 None) = 204 \<and>
   run unaryPlus
     (map ReadyStateChange [statusView 2 204 None, statusView 3 204 None, statusView 4 204 None])
     (constructor (js ''http://h/sse'') None)
   = (constructor (js ''http://h/sse'') None)\<lparr>canReconnect := False\<rparr>"
proof -
  have 1: "readyState (constructor (js ''http://h/sse'') None) \<noteq> CLOSED"
    by (simp add: constructor_def connect_def Let_def)
  have 2: "1 < xhr_readyState (statusView 2 204 None)"
    and 3: "xhr_readyState (statusView 2 204 None) \<noteq> 4"
    and 4: "status (statusView 2 204 None) = 204"
    and 5: "status (statusView 3 204 None) = 204"
    and 6: "status (statusView 4 204 None) = 204"
    by (simp_all add: statusView_def)
  have 7: "\<forall>y\<in>set [statusView 3 204 None, statusView 4 204 None]. status y = 204"
    using 5 6 by simp
  show ?thesis
    using 1 2 3 4 5 6 no_content_latch [OF 1 2 3 4 7, of unaryPlus] by blast
qed

text \<open>C2 as the specification words it, with \<open>readyState\<close> becoming CLOSED, does not
  hold: after a 204 response and its completion, the state of a fresh client is not
  CLOSED.\<close>

theorem no_content_not_closed:
  "readyState
     (run unaryPlus
        [ReadyStateChange (statusView 2 204 None), ReadyStateChange (statusView 4 204 None)]
        (constructor (js ''http://h/sse'') None)) \<noteq> CLOSED"
  by (simp add: eval)

lemma redirect_step:
  assumes "readyState st \<noteq> CLOSED" and "1 < xhr_readyState x" and "xhr_readyState x \<noteq> 4"
    and "status x = 301 \<or> status x = 307"
  shows "onreadystatechange tn x st =
           (case location x of
              None \<Rightarrow> failConnection (handle x) True st
            | Some u \<Rightarrow> if u \<noteq> [] then connect u (failConnection (handle x) True st)
                        else failConnection (handle x) True st)"
  using assms by (auto simp add: onreadystatechange_def Let_def split: option.splits)

lemma failConnection_silent:
  "failConnection h True st =
     st\<lparr>readyState := CLOSED, canReconnect := False, trace := trace st @ [XhrAbort h]\<rparr>"
  by (simp add: failConnection_def abort_def Let_def)

text \<open>
  C8, as the code has it. A client that is not closed and is notified of a response with
  status 301 or 307 (\<open>xhr.readyState\<close> 2 or 3) aborts that request and dispatches no
  event; when the response has a \<open>Location\<close> header that is not the empty string, it then
  sends a request to that URL from the same instance, which is CONNECTING again; with no
  such header, or an empty one, it sends nothing and stays CLOSED.
\<close>

theorem redirect_silent:
  assumes "readyState st \<noteq> CLOSED" and "1 < xhr_readyState x" and "xhr_readyState x \<noteq> 4"
    and "status x = 301 \<or> status x = 307"
  shows "trace (onreadystatechange toNumber x st) =
           trace st @ XhrAbort (handle x) #
           (case location x of
              None \<Rightarrow> []
            | Some u \<Rightarrow>
                if u \<noteq> [] then
                  [XhrSend \<lparr>req_handle = xhrCount st, req_url = u,
                            req_withCredentials = withCredentials st,
                            req_headers = [(js ''Accept'', js ''text/event-stream''),
                                           (js ''Cache-Control'', js ''no-cache'')]
                                          @ (if lastEventId st = [] then []
                                             else [(js ''Last-Event-ID'', lastEventId st)])\<rparr>]
                else []) \<and>
         readyState (onreadystatechange toNumber x st) =
           (case location x of
              None \<Rightarrow> CLOSED
            | Some u \<Rightarrow> if u \<noteq> [] then CONNECTING else CLOSED)"
  by (simp add: redirect_step [OF assms] failConnection_silent trace_connect
        split: option.splits) (simp add: connect_def Let_def)

theorem redirect_silent_witness:
  "readyState (constructor (js ''http://h/sse'') None) \<noteq> CLOSED \<and>
   1 < xhr_readyState (statusView 2 301 (Some (js ''/new''))) \<and>
   xhr_readyState (statusView 2 301 (Some (js ''/new''))) \<noteq> 4 \<and>
   status (statusView 2 301 (Some (js ''/new''))) = 301 \<and>
   trace (onreadystatechange unaryPlus (statusView 2 301 (Some (js ''/new'')))
            (constructor (js ''http://h/sse'') None)) =
     trace (constructor (js ''http://h/sse'') None) @
     [XhrAbort 0,
      XhrSend \<lparr>req_handle = 1, req_url = js ''/new'', req_withCredentials = False,
               req_headers = [(js ''Accept'', js ''text/event-stream''),
                              (js ''Cache-Control'', js ''no-cache'')]\<rparr>] \<and>
   readyState (onreadystatechange unaryPlus (statusView 2 301 (Some (js ''/new'')))
                 (constructor (js ''http://h/sse'') None)) = CONNECTING"
proof -
  let ?st = "constructor (js ''http://h/sse'') None"
  let ?x = "statusView 2 301 (Some (js ''/new''))"
  have 1: "readyState ?st \<noteq> CLOSED"
    by (simp add: constructor_def connect_def Let_def)
  have 2: "1 < xhr_readyState ?x" and 3: "xhr_readyState ?x \<noteq> 4" and 4: "status ?x = 301"
    by (simp_all add: statusView_def)
  have 5: "status ?x = 301 \<or> status ?x = 307" using 4 by simp
  have l: "location ?x = Some (js ''/new'')" "handle ?x = 0" by (simp_all add: statusView_def)
  have n: "js ''/new'' \<noteq> []" by (simp add: js_def)
  have c: "xhrCount ?st = 1" "withCredentials ?st = False" "lastEventId ?st = []"
    by (simp_all add: constructor_def connect_def Let_def)
  show ?thesis
    using 1 2 3 4 redirect_silent [OF 1 2 3 5, of unaryPlus]
    by (simp add: l n c)
qed

text \<open>C8 as the specification words it, for any \<open>Location\<close> header that is present, does
  not hold: when the header is present and empty, the request is aborted and no request
  follows.\<close>

theorem redirect_empty_location:
  "trace (onreadystatechange unaryPlus (statusView 2 301 (Some []))
            (constructor (js ''http://h/sse'') None)) =
     [XhrSend \<lparr>req_handle = 0, req_url = js ''http://h/sse'', req_withCredentials = False,
               req_headers = [(js ''Accept'', js ''text/event-stream''),
                              (js ''Cache-Control'', js ''no-cache'')]\<rparr>,
      XhrAbort 0]"
  by (simp add: eval)

section \<open>The reconnection latch\<close>

lemma canReconnect_dispatchMessageEvent:
  "canReconnect (dispatchMessageEvent origin st) = canReconnect st"
  by (simp add: dispatchMessageEvent_def Let_def dispatchEvent_def)

lemma canReconnect_processField:
  "canReconnect (processField tn payload st) = canReconnect st"
  by (simp add: processField_def Let_def)

lemma canReconnect_interpretLine:
  "canReconnect (interpretLine tn origin st line) = canReconnect st"
  by (simp add: interpretLine_def canReconnect_dispatchMessageEvent canReconnect_processField
        split: option.splits)

lemma canReconnect_interpretLines:
  "canReconnect (interpretLines tn origin ls st) = canReconnect st"
  by (induction ls arbitrary: st) (simp_all add: interpretLines_def canReconnect_interpretLine)

lemma canReconnect_interpretStream:
  "canReconnect (interpretStream tn x st) = canReconnect st"
  by (simp add: interpretStream_def Let_def substringFrom_def canReconnect_interpretLines
        split: option.splits)

lemma canReconnect_connect: "canReconnect (connect u st) = canReconnect st"
  by (simp add: connect_def Let_def)

lemma canReconnect_failConnection: "\<not> canReconnect (failConnection h silent st)"
  by (simp add: failConnection_def Let_def abort_def dispatchEvent_def)

lemma canReconnect_handleConnection:
  "canReconnect (handleConnection x st) \<Longrightarrow> canReconnect st"
  by (simp add: handleConnection_def announceConnection_def dispatchEvent_def
        canReconnect_failConnection split: if_splits option.splits)

lemma canReconnect_reestablishConnection:
  "canReconnect (reestablishConnection st) = canReconnect st"
  by (simp add: reestablishConnection_def Let_def dispatchEvent_def)

lemma canReconnect_timerCallback: "canReconnect (timerCallback st) = canReconnect st"
  by (simp add: timerCallback_def canReconnect_connect)

lemma canReconnect_close: "canReconnect (close st) = canReconnect st"
  by (simp add: close_def Let_def abort_def split: option.splits)

lemma canReconnect_onreadystatechange:
  "canReconnect (onreadystatechange tn x st) \<Longrightarrow> canReconnect st"
  by (auto simp add: onreadystatechange_def Let_def canReconnect_reestablishConnection
        canReconnect_interpretStream canReconnect_connect canReconnect_failConnection
        dest: canReconnect_handleConnection split: if_splits option.splits)

lemma canReconnect_step: "\<not> canReconnect st \<Longrightarrow> \<not> canReconnect (step tn st i)"
proof (cases i)
  case (Callback cb)
  assume "\<not> canReconnect st"
  then show ?thesis using Callback
    by (cases cb) (auto simp: canReconnect_timerCallback dest: canReconnect_onreadystatechange)
next
  case CloseCall
  assume "\<not> canReconnect st"
  then show ?thesis using CloseCall by (simp add: canReconnect_close)
qed

lemma canReconnect_steps: "\<not> canReconnect st \<Longrightarrow> \<not> canReconnect (steps tn ins st)"
proof (induction ins arbitrary: st)
  case Nil
  then show ?case by (simp add: steps_def)
next
  case (Cons i ins)
  from Cons.prems have "\<not> canReconnect (step tn st i)" by (rule canReconnect_step)
  then have "\<not> canReconnect (steps tn ins (step tn st i))" by (rule Cons.IH)
  then show ?case by (simp add: steps_def)
qed

lemma done_without_reconnect:
  "\<not> canReconnect st \<Longrightarrow> xhr_readyState y = 4 \<Longrightarrow> onreadystatechange tn y st = st"
  by (simp add: onreadystatechange_def reestablishConnection_def)

lemma redirect_latches:
  assumes "readyState st \<noteq> CLOSED" and "1 < xhr_readyState x" and "xhr_readyState x \<noteq> 4"
    and "status x = 301 \<or> status x = 307"
  shows "\<not> canReconnect (onreadystatechange tn x st)"
  by (simp add: redirect_step [OF assms] canReconnect_connect canReconnect_failConnection
        split: option.splits)

text \<open>
  C10. Once a client has handled a response with status 301 or 307, \<open>canReconnect\<close> is
  false, and it is false after any callbacks and calls of \<open>close()\<close> that follow. In
  every such later state the completion of a request (\<open>xhr.readyState = 4\<close>) leaves the
  client as it is: the state, the events and the requests.
\<close>

theorem redirect_never_reconnects:
  assumes "readyState st \<noteq> CLOSED" and "1 < xhr_readyState x" and "xhr_readyState x \<noteq> 4"
    and "status x = 301 \<or> status x = 307"
  shows "\<not> canReconnect (steps toNumber ins (onreadystatechange toNumber x st)) \<and>
         (xhr_readyState y = 4 \<longrightarrow>
            onreadystatechange toNumber y (steps toNumber ins (onreadystatechange toNumber x st)) =
              steps toNumber ins (onreadystatechange toNumber x st))"
proof -
  have "\<not> canReconnect (steps toNumber ins (onreadystatechange toNumber x st))"
    using redirect_latches [OF assms] by (rule canReconnect_steps)
  then show ?thesis by (simp add: done_without_reconnect)
qed

theorem redirect_never_reconnects_witness:
  "readyState (constructor (js ''http://h/sse'') None) \<noteq> CLOSED \<and>
   1 < xhr_readyState (statusView 2 307 (Some (js ''/new''))) \<and>
   xhr_readyState (statusView 2 307 (Some (js ''/new''))) \<noteq> 4 \<and>
   status (statusView 2 307 (Some (js ''/new''))) = 307 \<and>
   xhr_readyState (streamView 4 twoDataLines) = 4 \<and>
   readyState
     (steps unaryPlus
        [Callback (ReadyStateChange (streamView 2 [])),
         Callback (ReadyStateChange (streamView 3 twoDataLines))]
        (onreadystatechange unaryPlus (statusView 2 307 (Some (js ''/new'')))
           (constructor (js ''http://h/sse'') None))) = OPEN \<and>
   \<not> canReconnect
     (steps unaryPlus
        [Callback (ReadyStateChange (streamView 2 [])),
         Callback (ReadyStateChange (streamView 3 twoDataLines))]
        (onreadystatechange unaryPlus (statusView 2 307 (Some (js ''/new'')))
           (constructor (js ''http://h/sse'') None))) \<and>
   onreadystatechange unaryPlus (streamView 4 twoDataLines)
     (steps unaryPlus
        [Callback (ReadyStateChange (streamView 2 [])),
         Callback (ReadyStateChange (streamView 3 twoDataLines))]
        (onreadystatechange unaryPlus (statusView 2 307 (Some (js ''/new'')))
           (constructor (js ''http://h/sse'') None))) =
     steps unaryPlus
        [Callback (ReadyStateChange (streamView 2 [])),
         Callback (ReadyStateChange (streamView 3 twoDataLines))]
        (onreadystatechange unaryPlus (statusView 2 307 (Some (js ''/new'')))
           (constructor (js ''http://h/sse'') None))"
proof -
  let ?st = "constructor (js ''http://h/sse'') None"
  let ?x = "statusView 2 307 (Some (js ''/new''))"
  let ?ins = "[Callback (ReadyStateChange (streamView 2 [])),
               Callback (ReadyStateChange (streamView 3 twoDataLines))]"
  have 1: "readyState ?st \<noteq> CLOSED"
    by (simp add: constructor_def connect_def Let_def)
  have 2: "1 < xhr_readyState ?x" and 3: "xhr_readyState ?x \<noteq> 4" and 4: "status ?x = 307"
    by (simp_all add: statusView_def)
  have 5: "status ?x = 301 \<or> status ?x = 307" using 4 by simp
  have 6: "xhr_readyState (streamView 4 twoDataLines) = 4" by (simp add: streamView_def)
  have 7: "readyState (steps unaryPlus ?ins (onreadystatechange unaryPlus ?x ?st)) = OPEN"
    by (simp add: eval)
  show ?thesis
    using 1 2 3 4 6 7
      redirect_never_reconnects [OF 1 2 3 5, of unaryPlus ?ins "streamView 4 twoDataLines"]
    by blast
qed

section \<open>Data lines\<close>

lemma split_data_lines:
  "\<forall>w\<in>set ws. LF \<notin> set w \<Longrightarrow>
     split_str (concat (map (\<lambda>w. js ''data:'' @ w @ [LF]) ws) @ [LF]) LF =
       map (\<lambda>w. js ''data:'' @ w) ws @ [[], []]"
proof (induction ws)
  case Nil
  then show ?case by simp
next
  case (Cons w ws)
  have "LF \<notin> set (js ''data:'' @ w)" using Cons.prems by (simp add: js_def)
  then have "split_str ((js ''data:'' @ w) @
                LF # (concat (map (\<lambda>w. js ''data:'' @ w @ [LF]) ws) @ [LF])) LF
      = (js ''data:'' @ w) #
        split_str (concat (map (\<lambda>w. js ''data:'' @ w @ [LF]) ws) @ [LF]) LF"
    by (rule split_str_line)
  then show ?case using Cons by simp
qed

lemma parseLine_data:
  "parseLine (js ''data:'' @ w) = Some \<lparr>field = DATA, val = fieldValue w\<rparr>"
proof -
  have "parseLine (js ''data'' @ COLON # w) =
          Some \<lparr>field = js ''data'', val = fieldValue w\<rparr>"
    unfolding fieldValue_def by (rule parseLine_field) (simp_all add: js_def)
  then show ?thesis by (simp add: js_def DATA_def)
qed

lemma interpretLine_data:
  "interpretLine tn origin st (js ''data:'' @ w) =
     st\<lparr>dataBuffer := dataBuffer st @ fieldValue w @ [LF]\<rparr>"
proof -
  have "js ''data:'' \<noteq> []" by (simp add: js_def)
  then show ?thesis by (simp add: interpretLine_def parseLine_data processField_data)
qed

lemma interpretLines_data:
  "interpretLines tn origin (map (\<lambda>w. js ''data:'' @ w) ws) st =
     st\<lparr>dataBuffer := dataBuffer st @ concat (map (\<lambda>w. fieldValue w @ [LF]) ws)\<rparr>"
proof (induction ws arbitrary: st)
  case Nil
  then show ?case by (simp add: interpretLines_def)
next
  case (Cons w ws)
  have "interpretLines tn origin (map (\<lambda>w. js ''data:'' @ w) (w # ws)) st =
        interpretLines tn origin (map (\<lambda>w. js ''data:'' @ w) ws)
          (interpretLine tn origin st (js ''data:'' @ w))"
    by (simp add: interpretLines_def)
  then show ?case by (simp add: Cons.IH interpretLine_data)
qed

lemma interpretLines_append:
  "interpretLines tn origin (xs @ ys) st =
     interpretLines tn origin ys (interpretLines tn origin xs st)"
  by (simp add: interpretLines_def)

lemma terminated_lines_joined:
  "vs \<noteq> [] \<Longrightarrow> concat (map (\<lambda>v. v @ [LF]) vs) = joinLF vs @ [LF]"
  by (induction vs rule: joinLF.induct) simp_all

text \<open>
  C5. The client is open with an empty data buffer, and the new text of the response
  decodes and normalises to lines \<open>data:\<close>\<open>w\<close>, one for each \<open>w\<close> of \<open>ws\<close> (there is one at
  least, and \<open>w\<close> is any text of a line, with or without a leading space), and then a
  blank line. The data values are what follows the colons, less one leading space. Then
  \<open>interpretStream\<close> dispatches one event, and no other: its payload is the values joined
  by \<open>\n\<close> (the buffer, where each value is followed by \<open>\n\<close>, less its last \<open>\n\<close>), its
  type is the event-type buffer, or \<open>message\<close> when that is empty, its origin is the URL
  of the response and its id the pending id.
\<close>

theorem data_lines_payload:
  assumes "readyState st = OPEN" and "dataBuffer st = []"
    and "responseText x = Some text"
    and "decodeUTF8 (substringFrom text (responseTextCursor st)) = Some decoded"
    and "normalizeToLF decoded = concat (map (\<lambda>w. js ''data:'' @ w @ [LF]) ws) @ [LF]"
    and "ws \<noteq> []" and "\<forall>w\<in>set ws. LF \<notin> set w"
  shows "trace (interpretStream toNumber x st) =
           trace st @
           [DispatchEvent
              (Message (if eventTypeBuffer st \<noteq> [] then eventTypeBuffer st else js ''message'')
                 (joinLF (map fieldValue ws)) (responseURL x) (idBuffer st))] \<and>
         joinLF (map fieldValue ws) = butlast (concat (map (\<lambda>w. fieldValue w @ [LF]) ws))"
proof -
  let ?vs = "map fieldValue ws"
  let ?st1 = "st\<lparr>responseTextCursor := length text\<rparr>"
  let ?st2 = "?st1\<lparr>dataBuffer := joinLF ?vs @ [LF]\<rparr>"
  have buffer: "concat (map (\<lambda>w. fieldValue w @ [LF]) ws) = joinLF ?vs @ [LF]"
    using assms(6) terminated_lines_joined [of ?vs] by (simp add: comp_def)
  have lines: "split_str (normalizeToLF decoded) LF = map (\<lambda>w. js ''data:'' @ w) ws @ [[], []]"
    using assms(5,7) by (simp add: split_data_lines)
  have "interpretStream toNumber x st =
          interpretLines toNumber (responseURL x)
            (map (\<lambda>w. js ''data:'' @ w) ws @ [[], []]) ?st1"
    using assms(1,3,4) lines by (simp add: interpretStream_def Let_def)
  also have "\<dots> = interpretLines toNumber (responseURL x) [[], []] ?st2"
    using assms(2) by (simp add: interpretLines_append interpretLines_data buffer)
  finally have "interpretStream toNumber x st =
      dispatchMessageEvent (responseURL x) (dispatchMessageEvent (responseURL x) ?st2)"
    by (simp add: interpretLines_def interpretLine_def)
  then have "trace (interpretStream toNumber x st) =
           trace st @
           [DispatchEvent
              (Message (if eventTypeBuffer st \<noteq> [] then eventTypeBuffer st else js ''message'')
                 (joinLF ?vs) (responseURL x) (idBuffer st))]"
    by (simp add: dispatchMessageEvent_data [where b = "joinLF ?vs"] dispatchMessageEvent_empty)
  moreover have "joinLF ?vs = butlast (concat (map (\<lambda>w. fieldValue w @ [LF]) ws))"
    by (simp add: buffer)
  ultimately show ?thesis by simp
qed

theorem data_lines_payload_witness:
  "readyState opened = OPEN \<and> dataBuffer opened = [] \<and>
   responseText (streamView 3 twoDataLines) = Some twoDataLines \<and>
   decodeUTF8 (substringFrom twoDataLines (responseTextCursor opened)) = Some twoDataLines \<and>
   normalizeToLF twoDataLines =
     concat (map (\<lambda>w. js ''data:'' @ w @ [LF]) [js '' a'', js ''b'']) @ [LF] \<and>
   LF \<notin> set (js '' a'') \<and> LF \<notin> set (js ''b'') \<and>
   trace (interpretStream unaryPlus (streamView 3 twoDataLines) opened) =
     trace opened @
     [DispatchEvent
        (Message (js ''message'') (js ''a'' @ [LF] @ js ''b'') (js ''http://h/sse'') [])]"
proof -
  have 1: "readyState opened = OPEN" by (simp add: eval)
  have 2: "dataBuffer opened = []" by (simp add: eval)
  have 3: "responseText (streamView 3 twoDataLines) = Some twoDataLines"
    by (simp add: streamView_def)
  have 4: "decodeUTF8 (substringFrom twoDataLines (responseTextCursor opened)) =
             Some twoDataLines"
    by (simp add: eval)
  have 5: "normalizeToLF twoDataLines =
             concat (map (\<lambda>w. js ''data:'' @ w @ [LF]) [js '' a'', js ''b'']) @ [LF]"
    by (simp add: eval)
  have 6: "[js '' a'', js ''b''] \<noteq> []" by simp
  have 7: "LF \<notin> set (js '' a'')" and 8: "LF \<notin> set (js ''b'')" by (simp_all add: js_def)
  have 9: "\<forall>w\<in>set [js '' a'', js ''b'']. LF \<notin> set w" using 7 8 by simp
  have e: "eventTypeBuffer opened = []" and i: "idBuffer opened = []" by (simp_all add: eval)
  have u: "responseURL (streamView 3 twoDataLines) = js ''http://h/sse''"
    by (simp add: streamView_def)
  have v: "joinLF (map fieldValue [js '' a'', js ''b'']) = js ''a'' @ [LF] @ js ''b''"
    by (simp add: fieldValue_def js_def)
  from data_lines_payload [OF 1 2 3 4 5 6 9, of unaryPlus]
  have "trace (interpretStream unaryPlus (streamView 3 twoDataLines) opened) =
          trace opened @
          [DispatchEvent
             (Message (js ''message'') (js ''a'' @ [LF] @ js ''b'') (js ''http://h/sse'') [])]"
    unfolding v by (simp add: e i u)
  then show ?thesis using 1 2 3 4 5 7 8 by blast
qed

section \<open>Chunks\<close>

text \<open>
  C1. The text \<open>data: a\<close>, \<open>\n\<close>, \<open>\n\<close> gives the event with payload \<open>a\<close> when it arrives as
  one chunk, and no event at all when it arrives as the chunks \<open>da\<close>, \<open>ta: a\n\<close>, \<open>\n\<close>:
  each chunk is split into lines by itself, and the piece after its last \<open>\n\<close> is taken for
  a whole line. The first chunk yields the line \<open>da\<close>, a field name that is ignored, the
  second the line \<open>ta: a\<close>, an unknown field, and the blank lines find an empty data
  buffer.
\<close>

theorem chunked_delivery_loses_event:
  "concat [js ''da'', js ''ta: a'' @ [LF], [LF]] = js ''data: a'' @ [LF, LF] \<and>
   trace (run unaryPlus (deliver [] [js ''data: a'' @ [LF, LF]]) opened) =
     trace opened @
     [DispatchEvent (Message (js ''message'') (js ''a'') (js ''http://h/sse'') [])] \<and>
   trace (run unaryPlus (deliver [] [js ''da'', js ''ta: a'' @ [LF], [LF]]) opened) =
     trace opened"
  by (simp add: eval)

end
